theory Spec2Isabelle
  imports Complex_Main "HOL-Library.Sublist" "HOL-Library.Word"
begin

section \<open>Text primitives of the host language\<close>

text \<open>
  Program texts, diagnostics and style choices are Python \<open>str\<close> values; they are modelled
  as \<open>string\<close> (lists of 8-bit characters, read as ASCII code points).  The functions below
  are the built-in string operations that \<open>app.py\<close> calls.
\<close>

definition squote :: string where
  "squote = [CHR 0x27]"

definition is_space :: "char \<Rightarrow> bool" where
  \<comment> \<open>\<open>str.isspace\<close> and the regular-expression class \<open>\s\<close> on ASCII:
      TAB, LF, VT, FF, CR, FS, GS, RS, US and the blank.\<close>
  "is_space c = (c \<in> set [CHR 0x09, CHR 0x0A, CHR 0x0B, CHR 0x0C, CHR 0x0D,
                            CHR 0x1C, CHR 0x1D, CHR 0x1E, CHR 0x1F, CHR 0x20])"

definition strip :: "string \<Rightarrow> string" where
  \<comment> \<open>\<open>s.strip()\<close>\<close>
  "strip s = rev (dropWhile is_space (rev (dropWhile is_space s)))"

definition lower_char :: "char \<Rightarrow> char" where
  "lower_char c =
     (case map_of (zip ''ABCDEFGHIJKLMNOPQRSTUVWXYZ'' ''abcdefghijklmnopqrstuvwxyz'') c of
        None \<Rightarrow> c | Some d \<Rightarrow> d)"

definition lower :: "string \<Rightarrow> string" where
  \<comment> \<open>\<open>s.lower()\<close>\<close>
  "lower s = map lower_char s"

definition startswith :: "string \<Rightarrow> string \<Rightarrow> bool" where
  \<comment> \<open>\<open>s.startswith(p)\<close>\<close>
  "startswith s p = prefix p s"

fun contains :: "string \<Rightarrow> string \<Rightarrow> bool" where
  \<comment> \<open>\<open>p in s\<close>\<close>
  "contains p [] = (p = [])"
| "contains p (c # cs) = (prefix p (c # cs) \<or> contains p cs)"

fun count_occ :: "string \<Rightarrow> string \<Rightarrow> nat" where
  \<comment> \<open>the number of positions of \<open>s\<close> at which \<open>p\<close> occurs\<close>
  "count_occ p [] = (if p = [] then 1 else 0)"
| "count_occ p (c # cs) = (if prefix p (c # cs) then 1 else 0) + count_occ p cs"

function str_replace :: "string \<Rightarrow> string \<Rightarrow> string \<Rightarrow> string" where
  \<comment> \<open>\<open>s.replace(old, new)\<close>: the occurrences of \<open>old\<close> are found from left to right
      and do not overlap; an empty \<open>old\<close> matches before every character and at the end.\<close>
  "str_replace old new s =
     (if old = [] then new @ concat (map (\<lambda>c. c # new) s)
      else if prefix old s then new @ str_replace old new (drop (length old) s)
      else (case s of [] \<Rightarrow> [] | c # cs \<Rightarrow> c # str_replace old new cs))"
  by pat_completeness auto
termination
proof (relation "measure (\<lambda>(old, new, s). length s)")
  show "wf (measure (\<lambda>(old, new, s). length s))" by simp
next
  fix old new s :: string
  assume "old \<noteq> []" and "prefix old s"
  then have "s \<noteq> []" by auto
  with \<open>old \<noteq> []\<close>
  show "((old, new, drop (length old) s), (old, new, s)) \<in> measure (\<lambda>(old, new, s). length s)"
    by simp
next
  fix old new s :: string and c cs
  assume "s = c # cs"
  then show "((old, new, cs), (old, new, s)) \<in> measure (\<lambda>(old, new, s). length s)"
    by simp
qed

declare str_replace.simps [simp del]

section \<open>Style resolution (\<open>map_image_bg\<close>, \<open>map_chart_bg\<close>)\<close>

text \<open>
  A background choice is \<open>str | None\<close>.  The looked-up colour is \<open>None\<close> for the
  \<open>transparent\<close> entry of the tables and a colour string otherwise.
\<close>

definition or_default :: "string option \<Rightarrow> string" where
  \<comment> \<open>\<open>if not choice: choice = 'default'\<close>\<close>
  "or_default choice = (case choice of None \<Rightarrow> ''default''
                        | Some c \<Rightarrow> if c = [] then ''default'' else c)"

definition image_bg_table :: "(string \<times> string option) list" where
  "image_bg_table =
     [(''transparent'', None),
      (''white'', Some ''#f3f3f3''),
      (''blue'', Some ''#0b1220''),
      (''default'', Some ''#0a0a0a'')]"

definition chart_bg_table :: "(string \<times> string option) list" where
  "chart_bg_table =
     [(''transparent'', None),
      (''white'', Some ''#ffffff''),
      (''blue'', Some ''#8ac0db''),
      (''green'', Some ''#8adba5''),
      (''yellow'', Some ''#fee14e''),
      (''orange'', Some ''#fd732d''),
      (''purple'', Some ''#ce8adb''),
      (''teal'', Some ''#76d3cf''),
      (''default'', Some ''#111827'')]"

definition dict_get :: "('k \<times> 'v) list \<Rightarrow> 'k \<Rightarrow> 'v \<Rightarrow> 'v" where
  \<comment> \<open>\<open>{...}.get(key, default)\<close>\<close>
  "dict_get table k d = (case map_of table k of None \<Rightarrow> d | Some v \<Rightarrow> v)"

definition map_image_bg :: "string option \<Rightarrow> string option" where
  "map_image_bg choice = dict_get image_bg_table (lower (or_default choice)) (Some ''#0a0a0a'')"

definition map_chart_bg :: "string option \<Rightarrow> string option" where
  "map_chart_bg choice = dict_get chart_bg_table (lower (or_default choice)) (Some ''#111827'')"

record resolved_style =
  figure_bg :: "string option"
  panel_bg :: "string option"

definition resolve_style :: "string option \<Rightarrow> string option \<Rightarrow> resolved_style" where
  \<comment> \<open>lines 103--104 of \<open>execute_python_code\<close>\<close>
  "resolve_style img_bg_choice chart_bg_choice =
     \<lparr> figure_bg = map_image_bg img_bg_choice,
       panel_bg = (if chart_bg_choice \<noteq> None then map_chart_bg chart_bg_choice else None) \<rparr>"

section \<open>The save-to-sink sequence (\<open>save_repl\<close>)\<close>

definition fmt_opt :: "string option \<Rightarrow> string" where
  \<comment> \<open>an f-string field: \<open>None\<close> is formatted as the text \<open>None\<close>\<close>
  "fmt_opt v = (case v of None \<Rightarrow> ''None'' | Some s \<Rightarrow> s)"

definition panel_injection_transparent :: "string option \<Rightarrow> string" where
  \<open>panel_injection_transparent pb =
     (case pb of None \<Rightarrow> []
      | Some c \<Rightarrow>
          ''# Apply chart panel background if requested and not transparent\<newline>'' @
          ''try:\<newline>'' @
          ''    fig = plt.gcf()\<newline>'' @
          ''    for ax in fig.get_axes():\<newline>'' @
          ''        ax.set_facecolor('' @ squote @ c @ squote @ '')\<newline>'' @
          ''except Exception:\<newline>'' @
          ''    pass\<newline>'')\<close>

definition panel_injection_opaque :: "string option \<Rightarrow> string" where
  \<open>panel_injection_opaque pb =
     (case pb of None \<Rightarrow> []
      | Some c \<Rightarrow>
          ''# Apply chart panel background if requested\<newline>'' @
          ''try:\<newline>'' @
          ''    fig = plt.gcf()\<newline>'' @
          ''    for ax in fig.get_axes():\<newline>'' @
          ''        ax.set_facecolor('' @ squote @ c @ squote @ '')\<newline>'' @
          ''except Exception:\<newline>'' @
          ''    pass\<newline>'')\<close>

definition save_repl :: "string option \<Rightarrow> string option \<Rightarrow> string" where
  \<comment> \<open>lines 103--147: the text that takes the place of the display call\<close>
  \<open>save_repl img_bg_choice chart_bg_choice =
     (let st = resolve_style img_bg_choice chart_bg_choice in
      if img_bg_choice = Some ''transparent'' then
        ''fig = plt.gcf()\<newline>'' @
        ''# Make outer figure transparent while keeping axes opaque\<newline>'' @
        ''try:\<newline>    fig.patch.set_alpha(0.0)\<newline>except Exception:\<newline>    pass\<newline>'' @
        ''for ax in fig.get_axes():\<newline>'' @
        ''    try:\<newline>'' @
        ''        fc = ax.get_facecolor()\<newline>'' @
        ''        if isinstance(fc, tuple) and len(fc) == 4:\<newline>'' @
        ''            ax.set_facecolor((fc[0], fc[1], fc[2], 1.0))\<newline>'' @
        ''    except Exception:\<newline>'' @
        ''        pass\<newline>'' @
        panel_injection_transparent (panel_bg st) @
        ''plt.savefig(img_buffer, format="png", bbox_inches="tight", dpi=150, facecolor=(0,0,0,0), edgecolor="none", transparent=False)\<newline>'' @
        ''plt.close()''
      else
        ''fig = plt.gcf()\<newline>'' @
        ''try:\<newline>    fig.patch.set_facecolor('' @ squote @ fmt_opt (figure_bg st) @ squote @
          '')\<newline>except Exception:\<newline>    pass\<newline>'' @
        panel_injection_opaque (panel_bg st) @
        ''plt.savefig(img_buffer, format="png", bbox_inches="tight", dpi=150, facecolor=fig.get_facecolor(), edgecolor="none", transparent=False)\<newline>'' @
        ''plt.close()'')\<close>

section \<open>The display-call rewrite\<close>

definition SHOW_SENTINEL :: string where
  "SHOW_SENTINEL = ''plt.show()''"

definition auto_added_header :: string where
  "auto_added_header = ''\<newline>\<newline># Auto-added save (no plt.show() detected)\<newline>''"

definition rewrite_show :: "string option \<Rightarrow> string \<Rightarrow> string" where
  \<comment> \<open>lines 149--154; \<open>code\<close> may be \<open>None\<close>\<close>
  "rewrite_show code repl =
     (let modified_code = (case code of None \<Rightarrow> [] | Some c \<Rightarrow> c) in
      if contains SHOW_SENTINEL modified_code
      then str_replace SHOW_SENTINEL repl modified_code
      else modified_code @ auto_added_header @ repl @ ''\<newline>'')"

section \<open>Data injection\<close>

text \<open>
  The tabular data is a JSON array of objects: a list of rows, each row an ordered
  dictionary from column names to cells.  A cell is modelled by the text that
  \<open>csv.writer\<close> writes for it before quoting: \<open>None\<close> is written as the empty text,
  any other value \<open>v\<close> as \<open>str(v)\<close>.
\<close>

type_synonym row = "(string \<times> string option) list"

datatype py_error =
    ValueError string
  | RuntimeError string
  | TimeoutExpired string
  | UserException string

definition cell_text :: "string option \<Rightarrow> string" where
  "cell_text v = (case v of None \<Rightarrow> [] | Some s \<Rightarrow> s)"

definition CR :: char where "CR = CHR 0x0D"
definition LF :: char where "LF = CHR 0x0A"
definition dquote :: char where "dquote = CHR 0x22"

fun join :: "string \<Rightarrow> string list \<Rightarrow> string" where
  \<comment> \<open>\<open>sep.join(xs)\<close>\<close>
  "join sep [] = []"
| "join sep [x] = x"
| "join sep (x # y # zs) = x @ sep @ join sep (y # zs)"

definition needs_quote :: "string \<Rightarrow> bool" where
  \<comment> \<open>\<open>QUOTE_MINIMAL\<close> of the \<open>excel\<close> dialect: the delimiter, the quote character or a
      character of the line terminator occurs in the field\<close>
  "needs_quote f = (\<exists>c \<in> set f. c = CHR '','' \<or> c = dquote \<or> c = CR \<or> c = LF)"

definition quote_field :: "string \<Rightarrow> string" where
  "quote_field f =
     (if needs_quote f
      then dquote # concat (map (\<lambda>c. if c = dquote then [dquote, dquote] else [c]) f) @ [dquote]
      else f)"

definition writerow :: "string list \<Rightarrow> string" where
  \<comment> \<open>\<open>csv.writer.writerow\<close>: a record of one empty field is written as two quote
      characters; the line terminator is CR LF\<close>
  "writerow flds =
     (let rec = join '','' (map quote_field flds)
      in (if flds \<noteq> [] \<and> rec = [] then [dquote, dquote] else rec) @ [CR, LF])"

definition row_cells :: "string list \<Rightarrow> row \<Rightarrow> string list" where
  \<comment> \<open>\<open>(rowdict.get(key, self.restval) for key in self.fieldnames)\<close> with \<open>restval=''\<close>\<close>
  "row_cells fieldnames rowdict =
     map (\<lambda>k. case map_of rowdict k of None \<Rightarrow> [] | Some v \<Rightarrow> cell_text v) fieldnames"

definition dict_to_list :: "string list \<Rightarrow> row \<Rightarrow> py_error + string list" where
  \<comment> \<open>\<open>DictWriter._dict_to_list\<close> with \<open>extrasaction='raise'\<close>\<close>
  "dict_to_list fieldnames rowdict =
     (if \<exists>k \<in> set (map fst rowdict). k \<notin> set fieldnames
      then Inl (ValueError ''dict contains fields not in fieldnames'')
           \<comment> \<open>the message goes on with the list of these keys\<close>
      else Inr (row_cells fieldnames rowdict))"

fun writerows :: "string list \<Rightarrow> row list \<Rightarrow> py_error + string" where
  "writerows fieldnames [] = Inr []"
| "writerows fieldnames (r # rs) =
     (case dict_to_list fieldnames r of
        Inl e \<Rightarrow> Inl e
      | Inr flds \<Rightarrow>
          (case writerows fieldnames rs of
             Inl e \<Rightarrow> Inl e
           | Inr t \<Rightarrow> Inr (writerow flds @ t)))"

definition csv_text :: "row list \<Rightarrow> py_error + string" where
  \<comment> \<open>lines 160--165: \<open>csv_data_string\<close>\<close>
  "csv_text csv_data =
     (case csv_data of
        [] \<Rightarrow> Inr []
      | r0 # _ \<Rightarrow>
          (let fieldnames = map fst r0 in
           case writerows fieldnames csv_data of
             Inl e \<Rightarrow> Inl e
           | Inr body \<Rightarrow> Inr (writerow fieldnames @ body)))"

definition is_quote :: "char \<Rightarrow> bool" where
  "is_quote c = (c = CHR 0x27 \<or> c = dquote)"

definition match_read_csv :: "string \<Rightarrow> string option" where
  \<comment> \<open>A match of \<open>pd_read_csv_pattern\<close> at the start of the text; the result is the text
      after the match.  Every greedy repetition of the pattern is followed by a character
      outside its class, so backtracking never finds a match the greedy run misses; the lazy
      optional group is tried only after the closing parenthesis was not found without it.\<close>
  "match_read_csv s =
     (if \<not> prefix ''pd.read_csv'' s then None
      else case dropWhile is_space (drop 11 s) of
        [] \<Rightarrow> None
      | c1 # r2 \<Rightarrow>
          if c1 \<noteq> CHR ''('' then None
          else case dropWhile is_space r2 of
            [] \<Rightarrow> None
          | q1 # r4 \<Rightarrow>
              if \<not> is_quote q1 then None
              else case dropWhile (\<lambda>c. \<not> is_quote c) r4 of
                [] \<Rightarrow> None
              | q2 # r6 \<Rightarrow>
                  (case dropWhile is_space r6 of
                     [] \<Rightarrow> None
                   | c # r8 \<Rightarrow>
                       if c = CHR '')'' then Some r8
                       else if c = CHR '','' then
                         (case dropWhile (\<lambda>c. c \<noteq> CHR '')'') r8 of
                            [] \<Rightarrow> None
                          | _ # r9 \<Rightarrow> Some r9)
                       else None))"

function re_sub_read_csv :: "string \<Rightarrow> string \<Rightarrow> string" where
  \<comment> \<open>\<open>re.sub(pd_read_csv_pattern, repl, s)\<close>: leftmost matches, not overlapping\<close>
  "re_sub_read_csv repl s =
     (case match_read_csv s of
        Some rest \<Rightarrow> repl @ re_sub_read_csv repl rest
      | None \<Rightarrow> (case s of [] \<Rightarrow> [] | c # cs \<Rightarrow> c # re_sub_read_csv repl cs))"
  by pat_completeness auto
termination
proof (relation "measure (\<lambda>(repl, s). length s)")
  show "wf (measure (\<lambda>(repl, s). length s))" by simp
next
  fix repl s :: string and c cs
  assume "s = c # cs"
  then show "((repl, cs), (repl, s)) \<in> measure (\<lambda>(repl, s). length s)" by simp
next
  fix repl s rest :: string
  assume m: "match_read_csv s = Some rest"
  have dw: "\<And>P (xs :: string) y ys. dropWhile P xs = y # ys \<Longrightarrow> length ys < length xs"
  proof -
    fix P and xs :: string and y ys
    assume "dropWhile P xs = y # ys"
    then have "Suc (length ys) = length (dropWhile P xs)" by simp
    also have "\<dots> \<le> length xs" by (rule length_dropWhile_le)
    finally show "length ys < length xs" by simp
  qed
  from m obtain c1 r2 where 1: "dropWhile is_space (drop 11 s) = c1 # r2"
    by (auto simp: match_read_csv_def split: if_splits list.splits)
  from m 1 obtain q1 r4 where 2: "dropWhile is_space r2 = q1 # r4"
    by (auto simp: match_read_csv_def split: if_splits list.splits)
  from m 1 2 obtain q2 r6 where 3: "dropWhile (\<lambda>c. \<not> is_quote c) r4 = q2 # r6"
    by (auto simp: match_read_csv_def split: if_splits list.splits)
  from m 1 2 3 obtain c r8 where 4: "dropWhile is_space r6 = c # r8"
    by (auto simp: match_read_csv_def split: if_splits list.splits)
  from m 1 2 3 4 have 5: "rest = r8 \<or> (\<exists>x. dropWhile (\<lambda>c. c \<noteq> CHR '')'') r8 = x # rest)"
    by (auto simp: match_read_csv_def split: if_splits list.splits)
  have "length r2 < length (drop 11 s)" using 1 by (rule dw)
  moreover have "length r4 < length r2" using 2 by (rule dw)
  moreover have "length r6 < length r4" using 3 by (rule dw)
  moreover have "length r8 < length r6" using 4 by (rule dw)
  moreover have "length rest \<le> length r8" using 5 dw by (auto simp: less_imp_le)
  ultimately have "length rest < length s" by simp
  then show "((repl, rest), (repl, s)) \<in> measure (\<lambda>(repl, s). length s)" by simp
qed

declare re_sub_read_csv.simps [simp del]

definition csv_replacement :: string where
  "csv_replacement = ''pd.read_csv(io.StringIO(csv_data_string))''"

fun split_on :: "char \<Rightarrow> string \<Rightarrow> string list" where
  \<comment> \<open>\<open>s.split(sep)\<close> for a separator of one character\<close>
  "split_on sep [] = [[]]"
| "split_on sep (c # cs) =
     (if c = sep then [] # split_on sep cs
      else (case split_on sep cs of [] \<Rightarrow> [[c]] | l # ls \<Rightarrow> (c # l) # ls))"

definition is_import_line :: "string \<Rightarrow> bool" where
  "is_import_line line =
     (let s = strip line in startswith s ''import '' \<or> startswith s ''from '')"

definition is_code_line :: "string \<Rightarrow> bool" where
  \<comment> \<open>\<open>s and not s.startswith('#')\<close>\<close>
  "is_code_line line = (let s = strip line in s \<noteq> [] \<and> \<not> startswith s ''#'')"

fun find_insert_index :: "nat \<Rightarrow> nat \<Rightarrow> string list \<Rightarrow> nat" where
  \<comment> \<open>the loop of lines 171--177, entered at index \<open>i\<close> with \<open>insert_index = idx\<close>\<close>
  "find_insert_index i idx [] = idx"
| "find_insert_index i idx (line # rest) =
     (if is_import_line line then find_insert_index (i + 1) (i + 1) rest
      else if is_code_line line then idx
      else find_insert_index (i + 1) idx rest)"

definition list_insert :: "'a list \<Rightarrow> nat \<Rightarrow> 'a \<Rightarrow> 'a list" where
  \<comment> \<open>\<open>xs.insert(i, x)\<close> for \<open>i \<ge> 0\<close>\<close>
  "list_insert xs i x = take i xs @ x # drop i xs"

definition csv_literal_line :: "string \<Rightarrow> string" where
  \<open>csv_literal_line csv_data_string =
     ''csv_data_string = '' @ [dquote, dquote, dquote] @ csv_data_string @ [dquote, dquote, dquote]\<close>

definition import_io_lines :: "string \<Rightarrow> string list" where
  \<comment> \<open>lines 168--170\<close>
  "import_io_lines modified_code =
     ''import io'' # filter (\<lambda>line. strip line \<noteq> ''import io'') (split_on LF modified_code)"

definition inject_csv :: "row list option \<Rightarrow> string \<Rightarrow> py_error + string" where
  \<comment> \<open>lines 156--179; \<open>if csv_data:\<close> is false for \<open>None\<close> and for the empty list\<close>
  "inject_csv csv_data modified_code =
     (case csv_data of
        None \<Rightarrow> Inr modified_code
      | Some rows \<Rightarrow>
          if rows = [] then Inr modified_code
          else case csv_text rows of
            Inl e \<Rightarrow> Inl e
          | Inr csv_data_string \<Rightarrow>
              (let code_lines = import_io_lines (re_sub_read_csv csv_replacement modified_code);
                   insert_index = find_insert_index 0 0 code_lines
               in Inr (join [LF]
                        (list_insert code_lines insert_index (csv_literal_line csv_data_string)))))"

definition rewrite_program ::
  "string option \<Rightarrow> row list option \<Rightarrow> string option \<Rightarrow> string option \<Rightarrow> py_error + string" where
  \<comment> \<open>lines 103--179: the program text handed to \<open>exec\<close>\<close>
  "rewrite_program code csv_data img_bg_choice chart_bg_choice =
     inject_csv csv_data (rewrite_show code (save_repl img_bg_choice chart_bg_choice))"

section \<open>Embedded execution and the fallback image\<close>

text \<open>
  The interpreter (\<open>exec\<close>) and the plotting library are not code of \<open>app.py\<close>.  They are
  parameters of the model: \<open>run prog names\<close> is the outcome of executing the program text
  \<open>prog\<close> in a fresh global namespace in which exactly \<open>names\<close> are bound and the byte sink
  is empty; \<open>savefig fig fmt dpi\<close> is the byte sequence the renderer writes for a figure.
\<close>

type_synonym bytes = "8 word list"

datatype exec_outcome =
    ExecRaised string
  | ExecDone bytes  \<comment> \<open>the contents of \<open>img_buffer\<close> after the run\<close>

record fig_text =
  text_x :: rat
  text_y :: rat
  text_s :: string
  text_ha :: string
  text_va :: string
  text_color :: string

record figure =
  texts :: "fig_text list"

definition plt_figure :: figure where
  \<comment> \<open>\<open>plt.figure()\<close>: a new figure without content\<close>
  "plt_figure = \<lparr> texts = [] \<rparr>"

definition fig_add_text :: "figure \<Rightarrow> fig_text \<Rightarrow> figure" where
  "fig_add_text fig t = fig \<lparr> texts := texts fig @ [t] \<rparr>"

definition fallback_figure :: figure where
  \<comment> \<open>lines 197--198\<close>
  "fallback_figure =
     fig_add_text plt_figure
       \<lparr> text_x = 1 / 2, text_y = 1 / 2, text_s = ''No plot generated'',
         text_ha = ''center'', text_va = ''center'', text_color = ''red'' \<rparr>"

definition exec_globals_names :: "string list" where
  \<comment> \<open>the keys of \<open>exec_globals\<close>, lines 185--188\<close>
  "exec_globals_names = [''img_buffer'', ''__name__'']"

definition finish_buffer :: "(figure \<Rightarrow> string \<Rightarrow> nat \<Rightarrow> bytes) \<Rightarrow> bytes \<Rightarrow> bytes" where
  \<comment> \<open>lines 196--203: an empty sink receives the rendering of the fallback figure\<close>
  "finish_buffer savefig img_buffer =
     (if length img_buffer = 0 then img_buffer @ savefig fallback_figure ''png'' 120
      else img_buffer)"

definition execute_python_code ::
  "(string \<Rightarrow> string list \<Rightarrow> exec_outcome) \<Rightarrow> (figure \<Rightarrow> string \<Rightarrow> nat \<Rightarrow> bytes) \<Rightarrow>
   string option \<Rightarrow> row list option \<Rightarrow> string option \<Rightarrow> string option \<Rightarrow> py_error + bytes" where
  "execute_python_code run savefig code csv_data img_bg_choice chart_bg_choice =
     (case rewrite_program code csv_data img_bg_choice chart_bg_choice of
        Inl e \<Rightarrow> Inl e
      | Inr modified_code \<Rightarrow>
          (case run modified_code exec_globals_names of
             ExecRaised e \<Rightarrow> Inl (UserException e)
           | ExecDone img_buffer \<Rightarrow> Inr (finish_buffer savefig img_buffer)))"

section \<open>The external renderer (\<open>execute_r_code\<close>)\<close>

definition R_EXECUTABLE :: string where
  "R_EXECUTABLE = ''Rscript''"

definition path_join :: "string \<Rightarrow> string \<Rightarrow> string" where
  \<comment> \<open>\<open>os.path.join(a, b)\<close> on POSIX\<close>
  "path_join a b =
     (if prefix ''/'' b then b
      else if a = [] \<or> last a = CHR ''/'' then a @ b
      else a @ ''/'' @ b)"

record r_invocation =
  command :: "string list"
  timeout :: nat
  cwd :: string

definition r_command ::
  "string \<Rightarrow> string \<Rightarrow> row list option \<Rightarrow> string option \<Rightarrow> string option \<Rightarrow> bool option \<Rightarrow>
   string list" where
  \<comment> \<open>lines 227--251; \<open>temp_dir\<close> is the working directory of the request and
      \<open>script_dir\<close> the directory of \<open>app.py\<close>\<close>
  "r_command temp_dir script_dir csv_data img_bg_choice chart_bg_choice show_grid_lines =
     (let r_code_file = path_join temp_dir ''user_script.R'';
          output_plot_file = path_join temp_dir ''chart.png'';
          runner_script_path = path_join script_dir ''run_r_script.r'';
          c0 = [R_EXECUTABLE, ''--vanilla'', runner_script_path, r_code_file, output_plot_file];
          c1 = (case csv_data of
                  None \<Rightarrow> c0
                | Some rows \<Rightarrow> if rows = [] then c0 else c0 @ [path_join temp_dir ''data.csv'']);
          c2 = (case img_bg_choice of
                  None \<Rightarrow> c1
                | Some v \<Rightarrow> if v = [] then c1 else c1 @ [v]);
          c3 = (case chart_bg_choice of
                  None \<Rightarrow> c2
                | Some v \<Rightarrow> if v = [] then c2 else c2 @ [v]);
          c4 = (case show_grid_lines of
                  None \<Rightarrow> c3
                | Some b \<Rightarrow> c3 @ [if b then ''true'' else ''false''])
      in c4)"

definition r_subprocess ::
  "string \<Rightarrow> string \<Rightarrow> row list option \<Rightarrow> string option \<Rightarrow> string option \<Rightarrow> bool option \<Rightarrow>
   r_invocation" where
  \<comment> \<open>the arguments of \<open>subprocess.run\<close>, lines 254--261\<close>
  "r_subprocess temp_dir script_dir csv_data img_bg_choice chart_bg_choice show_grid_lines =
     \<lparr> command = r_command temp_dir script_dir csv_data img_bg_choice chart_bg_choice
                   show_grid_lines,
       timeout = 90,
       cwd = temp_dir \<rparr>"

definition relevant_error :: "string \<Rightarrow> bool" where
  \<comment> \<open>the condition of the comprehension of line 272; \<open>and\<close> binds tighter than \<open>or\<close>\<close>
  "relevant_error line =
     ((strip line \<noteq> [] \<and> \<not> startswith line ''Execution halted'' \<and> contains ''Error'' line)
      \<or> contains ''error'' (lower line))"

definition select_error :: "string \<Rightarrow> string" where
  \<comment> \<open>lines 266--281: \<open>clean_error\<close> before truncation, from the raw error stream\<close>
  "select_error raw_stderr =
     (let stderr = (if raw_stderr \<noteq> [] then strip raw_stderr else []);
          error_lines = (if stderr \<noteq> [] then split_on LF stderr else []);
          relevant_errors = filter relevant_error error_lines
      in case relevant_errors of
           r # _ \<Rightarrow> strip r
         | [] \<Rightarrow>
             if stderr \<noteq> [] then
               (case error_lines of l # _ \<Rightarrow> take 200 (strip l) | [] \<Rightarrow> ''Unknown R error'')
             else ''R script execution failed'')"

definition cap_error :: "string \<Rightarrow> string" where
  \<comment> \<open>lines 284--285\<close>
  "cap_error clean_error =
     (if length clean_error > 300 then take 300 clean_error @ ''...'' else clean_error)"

definition no_image_note :: string where
  "no_image_note = '' (no output image generated)''"

definition ggplot_guidance :: string where
  "ggplot_guidance =
     '' - ggplot2 isn'' @ squote @ ''t available in the runtime. If running locally, install R and ggplot2. If on Heroku with Docker, ensure the Docker image installs ggplot2 and redeploy.''"

definition r_error_msg :: "string \<Rightarrow> bool \<Rightarrow> string" where
  \<comment> \<open>lines 266--295; \<open>file_exists\<close> is \<open>os.path.exists(output_plot_file)\<close>\<close>
  "r_error_msg raw_stderr file_exists =
     (let c1 = cap_error (select_error raw_stderr);
          c2 = (if \<not> file_exists then c1 @ no_image_note else c1);
          c3 = (if contains ''there is no package called'' (lower c2) \<and>
                   contains ''ggplot2'' (lower c2)
                then c2 @ ggplot_guidance else c2)
      in ''R execution error: '' @ c3)"

datatype proc_result =
    Completed int string string  \<comment> \<open>return code, standard output, error stream\<close>
  | TimedOut string  \<comment> \<open>the message of the exception that \<open>subprocess.run\<close> raises\<close>

definition r_result :: "proc_result \<Rightarrow> bytes option \<Rightarrow> py_error + bytes" where
  \<comment> \<open>lines 254--303: \<open>output_file\<close> is the content of the output image file, or
      \<open>None\<close> when the file does not exist\<close>
  "r_result res output_file =
     (case res of
        TimedOut m \<Rightarrow> Inl (TimeoutExpired m)
      | Completed returncode out err \<Rightarrow>
          (case output_file of
             None \<Rightarrow> Inl (RuntimeError (r_error_msg err False))
           | Some img \<Rightarrow>
               if returncode \<noteq> 0 then Inl (RuntimeError (r_error_msg err True))
               else Inr img))"

section \<open>The request handler (\<open>generate_chart\<close>)\<close>

record chart_request =
  language :: "string option"
  code :: "string option"
  data :: "row list option"
  imgBgChoice :: "string option"
  bgChoice :: "string option"
  chartBgChoice :: "string option"
  showGridLines :: "bool option"

datatype response =
    ImagePng bytes
  | JsonError string nat  \<comment> \<open>the \<open>error\<close> text and the status code\<close>

datatype adapter = PythonAdapter | RAdapter

definition py_or :: "string option \<Rightarrow> string option \<Rightarrow> string option" where
  \<comment> \<open>\<open>a or b\<close>\<close>
  "py_or a b = (case a of None \<Rightarrow> b | Some v \<Rightarrow> if v = [] then b else a)"

definition error_text :: "py_error \<Rightarrow> string" where
  \<comment> \<open>\<open>str(e)\<close>\<close>
  "error_text e =
     (case e of ValueError m \<Rightarrow> m | RuntimeError m \<Rightarrow> m
      | TimeoutExpired m \<Rightarrow> m
      | UserException m \<Rightarrow> m)"

definition finish_request :: "py_error + bytes \<Rightarrow> response" where
  \<comment> \<open>lines 327--330\<close>
  "finish_request r =
     (case r of Inr image_buffer \<Rightarrow> ImagePng image_buffer
      | Inl e \<Rightarrow> JsonError (error_text e) 500)"

definition generate_chart ::
  "(string option \<Rightarrow> row list option \<Rightarrow> string option \<Rightarrow> string option \<Rightarrow> py_error + bytes) \<Rightarrow>
   (string option \<Rightarrow> row list option \<Rightarrow> string option \<Rightarrow> string option \<Rightarrow> bool option \<Rightarrow>
      py_error + bytes) \<Rightarrow>
   chart_request \<Rightarrow> response \<times> adapter list" where
  \<comment> \<open>lines 310--330.  The two adapters are arguments; the second component of the result
      lists the adapters that were called.\<close>
  "generate_chart python_adapter r_adapter req =
     (let img_bg_choice = py_or (imgBgChoice req) (bgChoice req);
          chart_bg_choice = chartBgChoice req
      in if language req = Some ''python'' then
           (finish_request (python_adapter (code req) (data req) img_bg_choice chart_bg_choice),
            [PythonAdapter])
         else if language req = Some ''r'' then
           (finish_request
              (r_adapter (code req) (data req) img_bg_choice chart_bg_choice (showGridLines req)),
            [RAdapter])
         else (JsonError ''Invalid language specified'' 400, []))"

section \<open>Occurrences and replacement\<close>

lemma contains_iff_count: "contains p s \<longleftrightarrow> 0 < count_occ p s"
  by (induction s) auto

lemma contains_decomp: "contains p s \<Longrightarrow> \<exists>a b. s = a @ p @ b"
proof (induction s)
  case Nil
  then show ?case by simp
next
  case (Cons c cs)
  show ?case
  proof (cases "prefix p (c # cs)")
    case True
    then obtain b where "c # cs = p @ b" by (auto simp: prefix_def)
    then have "c # cs = [] @ p @ b" by simp
    then show ?thesis by blast
  next
    case False
    with Cons.prems have "contains p cs" by simp
    with Cons.IH obtain a b where "cs = a @ p @ b" by blast
    then have "c # cs = (c # a) @ p @ b" by simp
    then show ?thesis by blast
  qed
qed

lemma count_occ_append_ge: "count_occ p ys \<le> count_occ p (xs @ ys)"
  by (induction xs) auto

lemma count_occ_self_append: "0 < count_occ p (p @ b)"
proof (cases "p @ b")
  case Nil
  then show ?thesis by simp
next
  case (Cons c cs)
  have "prefix p (p @ b)" by simp
  with Cons have "prefix p (c # cs)" by simp
  with Cons show ?thesis by simp
qed

lemma contains_append: "contains p (a @ p @ b)"
proof -
  have "0 < count_occ p (p @ b)" by (rule count_occ_self_append)
  also have "\<dots> \<le> count_occ p (a @ p @ b)" by (rule count_occ_append_ge)
  finally show ?thesis by (simp add: contains_iff_count)
qed

lemma str_replace_absent:
  "old \<noteq> [] \<Longrightarrow> \<not> contains old s \<Longrightarrow> str_replace old new s = s"
proof (induction s)
  case Nil
  then show ?case by (simp add: str_replace.simps)
next
  case (Cons c cs)
  then show ?case by (subst str_replace.simps) simp
qed

lemma str_replace_unique:
  assumes "old \<noteq> []" and "count_occ old (a @ old @ b) = 1"
  shows "str_replace old new (a @ old @ b) = a @ new @ b"
  using assms(2)
proof (induction a)
  case Nil
  from assms(1) obtain c cs where p: "old = c # cs" by (cases old) auto
  from Nil have "count_occ old (cs @ b) = 0" by (simp add: p)
  moreover have "count_occ old b \<le> count_occ old (cs @ b)" by (rule count_occ_append_ge)
  ultimately have "\<not> contains old b" by (simp add: contains_iff_count)
  then have "str_replace old new b = b" using assms(1) by (rule str_replace_absent[rotated])
  then show ?case using assms(1) by (subst str_replace.simps) simp
next
  case (Cons c a)
  have "0 < count_occ old (old @ b)" by (rule count_occ_self_append)
  moreover have "count_occ old (old @ b) \<le> count_occ old (a @ old @ b)"
    by (rule count_occ_append_ge)
  ultimately have pos: "0 < count_occ old (a @ old @ b)" by simp
  from Cons.prems have np: "\<not> prefix old (c # a @ old @ b)"
    and one: "count_occ old (a @ old @ b) = 1"
    using pos by (auto split: if_splits)
  from Cons.IH[OF one] np assms(1) show ?case
    by (subst str_replace.simps) simp
qed

lemma SHOW_SENTINEL_nonempty: "SHOW_SENTINEL \<noteq> []"
  by (simp add: SHOW_SENTINEL_def)

section \<open>The display-call rewrite\<close>

text \<open>
  Claim C1.  The display call is found by plain text comparison with \<open>plt.show()\<close>.
  A source text in which the call occurs at exactly one position has that occurrence, and
  nothing else, replaced by the save-to-sink sequence: the text before and the text after
  the call are kept.  A source text without the call is left unchanged by the replacement
  step, and the rewritten program is that text followed by the marker comment, the
  save-to-sink sequence and a line break.  The rewrite is a total function: it has no
  failure result.
\<close>

theorem C1_display_call_rewrite:
  "(count_occ SHOW_SENTINEL src = 1 \<longrightarrow>
      (\<exists>a b. src = a @ SHOW_SENTINEL @ b) \<and>
      (\<forall>a b. src = a @ SHOW_SENTINEL @ b \<longrightarrow>
         rewrite_show (Some src) (save_repl img chart) = a @ save_repl img chart @ b)) \<and>
   (count_occ SHOW_SENTINEL src = 0 \<longrightarrow>
      str_replace SHOW_SENTINEL (save_repl img chart) src = src \<and>
      rewrite_show (Some src) (save_repl img chart) =
        src @ auto_added_header @ save_repl img chart @ ''\<newline>'')"
proof (intro conjI impI allI)
  assume one: "count_occ SHOW_SENTINEL src = 1"
  then have "contains SHOW_SENTINEL src" by (simp add: contains_iff_count)
  then show "\<exists>a b. src = a @ SHOW_SENTINEL @ b" by (rule contains_decomp)
next
  fix a b
  assume one: "count_occ SHOW_SENTINEL src = 1" and src: "src = a @ SHOW_SENTINEL @ b"
  from one have c: "contains SHOW_SENTINEL src" by (simp add: contains_iff_count)
  from one src have "str_replace SHOW_SENTINEL (save_repl img chart) (a @ SHOW_SENTINEL @ b)
      = a @ save_repl img chart @ b"
    by (intro str_replace_unique SHOW_SENTINEL_nonempty) simp
  with c src show "rewrite_show (Some src) (save_repl img chart) = a @ save_repl img chart @ b"
    by (simp add: rewrite_show_def)
next
  assume zero: "count_occ SHOW_SENTINEL src = 0"
  then have nc: "\<not> contains SHOW_SENTINEL src" by (simp add: contains_iff_count)
  then show "str_replace SHOW_SENTINEL (save_repl img chart) src = src"
    by (intro str_replace_absent SHOW_SENTINEL_nonempty)
  from nc show "rewrite_show (Some src) (save_repl img chart) =
      src @ auto_added_header @ save_repl img chart @ ''\<newline>''"
    by (simp add: rewrite_show_def)
qed

theorem C1_display_call_rewrite_witness:
  "count_occ SHOW_SENTINEL ''plt.plot(x)\<newline>plt.show()\<newline>print(1)'' = 1 \<and>
   rewrite_show (Some ''plt.plot(x)\<newline>plt.show()\<newline>print(1)'') (save_repl None None) =
     ''plt.plot(x)\<newline>'' @ save_repl None None @ ''\<newline>print(1)'' \<and>
   count_occ SHOW_SENTINEL ''plt.plot(x)'' = 0 \<and>
   rewrite_show (Some ''plt.plot(x)'') (save_repl None None) =
     ''plt.plot(x)'' @ auto_added_header @ save_repl None None @ ''\<newline>''"
proof -
  have one: "count_occ SHOW_SENTINEL ''plt.plot(x)\<newline>plt.show()\<newline>print(1)'' = 1"
    by (simp add: SHOW_SENTINEL_def)
  have zero: "count_occ SHOW_SENTINEL ''plt.plot(x)'' = 0"
    by (simp add: SHOW_SENTINEL_def)
  have dec: "''plt.plot(x)\<newline>plt.show()\<newline>print(1)'' =
      ''plt.plot(x)\<newline>'' @ SHOW_SENTINEL @ ''\<newline>print(1)''"
    by (simp add: SHOW_SENTINEL_def)
  from C1_display_call_rewrite
         [of "''plt.plot(x)\<newline>plt.show()\<newline>print(1)''" None None] one dec
  have "rewrite_show (Some ''plt.plot(x)\<newline>plt.show()\<newline>print(1)'') (save_repl None None) =
     ''plt.plot(x)\<newline>'' @ save_repl None None @ ''\<newline>print(1)''"
    by blast
  moreover from C1_display_call_rewrite [of "''plt.plot(x)''" None None] zero
  have "rewrite_show (Some ''plt.plot(x)'') (save_repl None None) =
     ''plt.plot(x)'' @ auto_added_header @ save_repl None None @ ''\<newline>''"
    by blast
  ultimately show ?thesis using one zero by blast
qed

section \<open>Style resolution\<close>





text \<open>
  Claim C6 (evaluation at a failing input).  The image choice \<open>Transparent\<close> has the same
  lower-case form and the same resolved style as \<open>transparent\<close>, but the save sequence
  differs: the comparison that selects the transparent handling is made on the choice as
  given, so the opaque sequence is produced, with the colour field formatted from \<open>None\<close>.
\<close>

theorem C6_transparent_case_variant:
  "lower ''Transparent'' = lower ''transparent'' \<and>
   resolve_style (Some ''Transparent'') None = resolve_style (Some ''transparent'') None \<and>
   save_repl (Some ''Transparent'') None \<noteq> save_repl (Some ''transparent'') None \<and>
   contains (''fig.patch.set_facecolor('' @ squote @ ''None'' @ squote @ '')'')
     (save_repl (Some ''Transparent'') None) \<and>
   \<not> contains ''fig.patch.set_alpha(0.0)'' (save_repl (Some ''Transparent'') None) \<and>
   contains ''fig.patch.set_alpha(0.0)'' (save_repl (Some ''transparent'') None)"
  by code_simp

section \<open>The request handler\<close>

text \<open>
  Claim C8.  A request whose language tag is neither \<open>python\<close> nor \<open>r\<close> is answered
  with the error \<open>Invalid language specified\<close> and status 400, and no adapter is called,
  whatever the two adapters are.
\<close>

theorem C8_invalid_language:
  "language req \<noteq> Some ''python'' \<Longrightarrow> language req \<noteq> Some ''r'' \<Longrightarrow>
   generate_chart python_adapter r_adapter req = (JsonError ''Invalid language specified'' 400, [])"
  by (simp add: generate_chart_def Let_def)

theorem C8_invalid_language_witness:
  "language \<lparr> language = Some ''julia'', code = Some ''plot(1)'', data = None,
              imgBgChoice = None, bgChoice = None, chartBgChoice = None,
              showGridLines = None \<rparr> \<noteq> Some ''python'' \<and>
   language \<lparr> language = Some ''julia'', code = Some ''plot(1)'', data = None,
              imgBgChoice = None, bgChoice = None, chartBgChoice = None,
              showGridLines = None \<rparr> \<noteq> Some ''r'' \<and>
   generate_chart (\<lambda>c d i p. Inr []) (\<lambda>c d i p g. Inr [])
     \<lparr> language = Some ''julia'', code = Some ''plot(1)'', data = None,
       imgBgChoice = None, bgChoice = None, chartBgChoice = None, showGridLines = None \<rparr>
   = (JsonError ''Invalid language specified'' 400, [])"
proof -
  let ?req = "\<lparr> language = Some ''julia'', code = Some ''plot(1)'', data = None,
       imgBgChoice = None, bgChoice = None, chartBgChoice = None, showGridLines = None \<rparr>"
  have a: "language ?req \<noteq> Some ''python''" by simp
  have b: "language ?req \<noteq> Some ''r''" by simp
  from C8_invalid_language [OF a b, of "\<lambda>c d i p. Inr []" "\<lambda>c d i p g. Inr []"] a b
  show ?thesis by blast
qed

section \<open>The external renderer\<close>

lemma path_join_nonempty: "b \<noteq> [] \<Longrightarrow> path_join a b \<noteq> [] \<and> [] \<noteq> path_join a b"
  by (auto simp: path_join_def)

text \<open>
  Claim C9.  The renderer command is the executable, the flag \<open>--vanilla\<close>, the runner
  script, the source file and the output file, followed in this order by the data file when
  the data is a non-empty list, the image choice when it is a non-empty text, the chart
  choice when it is a non-empty text, and \<open>true\<close> or \<open>false\<close> when the grid flag is
  given.  No element of the command is the empty text, and the subprocess is run with
  this command and a timeout of 90.
\<close>

theorem C9_renderer_command:
  "r_command temp_dir script_dir csv_data img chart grid =
     [R_EXECUTABLE, ''--vanilla'', path_join script_dir ''run_r_script.r'',
      path_join temp_dir ''user_script.R'', path_join temp_dir ''chart.png''] @
     (case csv_data of None \<Rightarrow> [] | Some rows \<Rightarrow>
        if rows = [] then [] else [path_join temp_dir ''data.csv'']) @
     (case img of None \<Rightarrow> [] | Some v \<Rightarrow> if v = [] then [] else [v]) @
     (case chart of None \<Rightarrow> [] | Some v \<Rightarrow> if v = [] then [] else [v]) @
     (case grid of None \<Rightarrow> [] | Some b \<Rightarrow> [if b then ''true'' else ''false'']) \<and>
   [] \<notin> set (r_command temp_dir script_dir csv_data img chart grid) \<and>
   command (r_subprocess temp_dir script_dir csv_data img chart grid) =
     r_command temp_dir script_dir csv_data img chart grid \<and>
   timeout (r_subprocess temp_dir script_dir csv_data img chart grid) = 90"
proof -
  have eq: "r_command temp_dir script_dir csv_data img chart grid =
     [R_EXECUTABLE, ''--vanilla'', path_join script_dir ''run_r_script.r'',
      path_join temp_dir ''user_script.R'', path_join temp_dir ''chart.png''] @
     (case csv_data of None \<Rightarrow> [] | Some rows \<Rightarrow>
        if rows = [] then [] else [path_join temp_dir ''data.csv'']) @
     (case img of None \<Rightarrow> [] | Some v \<Rightarrow> if v = [] then [] else [v]) @
     (case chart of None \<Rightarrow> [] | Some v \<Rightarrow> if v = [] then [] else [v]) @
     (case grid of None \<Rightarrow> [] | Some b \<Rightarrow> [if b then ''true'' else ''false''])"
    by (simp add: r_command_def Let_def split: option.splits)
  have ne: "[] \<notin> set (r_command temp_dir script_dir csv_data img chart grid)"
    unfolding eq
    by (auto simp: R_EXECUTABLE_def path_join_nonempty split: option.splits if_splits)
  show ?thesis using eq ne by (simp add: r_subprocess_def)
qed

lemma r_error_msg_note: "contains ''(no output image generated)'' (r_error_msg err False)"
proof -
  let ?c1 = "cap_error (select_error err)"
  obtain rest where "r_error_msg err False =
      (''R execution error: '' @ ?c1 @ '' '') @ ''(no output image generated)'' @ rest"
    by (cases "contains ''there is no package called'' (lower (?c1 @ no_image_note)) \<and>
               contains ''ggplot2'' (lower (?c1 @ no_image_note))")
       (auto simp: r_error_msg_def Let_def no_image_note_def)
  then show ?thesis by (simp only: contains_append)
qed

text \<open>
  Claim C4.  When the renderer has exited, the external path returns an image exactly when
  the return code is zero and the output file exists.  Return code zero without a file, and
  a file with a nonzero return code, both raise a runtime error; whenever the file is
  missing the message of the error contains \<open>(no output image generated)\<close>.
\<close>

theorem C4_renderer_success:
  "((\<exists>img. r_result (Completed rc out err) file = Inr img) \<longleftrightarrow> (rc = 0 \<and> file \<noteq> None)) \<and>
   (rc = 0 \<and> file = None \<longrightarrow> (\<exists>m. r_result (Completed rc out err) file = Inl (RuntimeError m))) \<and>
   (rc \<noteq> 0 \<and> file \<noteq> None \<longrightarrow>
      (\<exists>m. r_result (Completed rc out err) file = Inl (RuntimeError m))) \<and>
   (file = None \<longrightarrow>
      (\<exists>m. r_result (Completed rc out err) file = Inl (RuntimeError m) \<and>
           contains ''(no output image generated)'' m))"
  using r_error_msg_note [of err]
  by (auto simp: r_result_def split: option.splits)

theorem C4_renderer_success_witness:
  "(\<exists>m. r_result (Completed 0 [] []) None = Inl (RuntimeError m) \<and>
        contains ''(no output image generated)'' m) \<and>
   (\<exists>m. r_result (Completed 1 [] ''Error: boom'') (Some [1, 2, 3]) = Inl (RuntimeError m)) \<and>
   (\<exists>img. r_result (Completed 0 [] []) (Some [1, 2, 3]) = Inr img)"
proof -
  have a: "(0::int) = 0 \<and> (None :: bytes option) = None" by simp
  have b: "(1::int) \<noteq> 0 \<and> Some [1, 2, 3 :: 8 word] \<noteq> None" by simp
  have c: "(0::int) = 0 \<and> Some [1, 2, 3 :: 8 word] \<noteq> None" by simp
  from C4_renderer_success [of 0 "[]" "[]" None] a
    C4_renderer_success [of 1 "[]" "''Error: boom''" "Some [1, 2, 3]"] b
    C4_renderer_success [of 0 "[]" "[]" "Some [1, 2, 3]"] c
  show ?thesis by blast
qed

section \<open>Embedded execution\<close>



text \<open>
  Claim C10 (evaluation at a failing input).  With the source code absent and no data or
  style choice, the rewrite does not fail: the program handed to the interpreter is the
  marker comment followed by the save-to-sink sequence.  Its first statement reads the name
  \<open>plt\<close>, which is not among the names bound in the namespace of the run, and the result of
  the adapter is whatever the interpreter makes of that program.
\<close>

theorem C10_absent_code_program:
  \<open>rewrite_program None None None None =
     Inr (''\<newline>\<newline># Auto-added save (no plt.show() detected)\<newline>'' @
          ''fig = plt.gcf()\<newline>'' @
          ''try:\<newline>'' @
          ''    fig.patch.set_facecolor('' @ squote @ ''#0a0a0a'' @ squote @ '')\<newline>'' @
          ''except Exception:\<newline>'' @
          ''    pass\<newline>'' @
          ''plt.savefig(img_buffer, format="png", bbox_inches="tight", dpi=150, facecolor=fig.get_facecolor(), edgecolor="none", transparent=False)\<newline>'' @
          ''plt.close()\<newline>'') \<and>
   ''plt'' \<notin> set exec_globals_names \<and>
   execute_python_code run savefig None None None None =
     (case run (''\<newline>\<newline># Auto-added save (no plt.show() detected)\<newline>'' @
          ''fig = plt.gcf()\<newline>'' @
          ''try:\<newline>'' @
          ''    fig.patch.set_facecolor('' @ squote @ ''#0a0a0a'' @ squote @ '')\<newline>'' @
          ''except Exception:\<newline>'' @
          ''    pass\<newline>'' @
          ''plt.savefig(img_buffer, format="png", bbox_inches="tight", dpi=150, facecolor=fig.get_facecolor(), edgecolor="none", transparent=False)\<newline>'' @
          ''plt.close()\<newline>'') [''img_buffer'', ''__name__''] of
        ExecRaised e \<Rightarrow> Inl (UserException e)
      | ExecDone sink \<Rightarrow> Inr (finish_buffer savefig sink))\<close>
proof -
  have p: \<open>rewrite_program None None None None =
     Inr (''\<newline>\<newline># Auto-added save (no plt.show() detected)\<newline>'' @
          ''fig = plt.gcf()\<newline>'' @
          ''try:\<newline>'' @
          ''    fig.patch.set_facecolor('' @ squote @ ''#0a0a0a'' @ squote @ '')\<newline>'' @
          ''except Exception:\<newline>'' @
          ''    pass\<newline>'' @
          ''plt.savefig(img_buffer, format="png", bbox_inches="tight", dpi=150, facecolor=fig.get_facecolor(), edgecolor="none", transparent=False)\<newline>'' @
          ''plt.close()\<newline>'')\<close>
    by (simp add: rewrite_program_def inject_csv_def rewrite_show_def SHOW_SENTINEL_def
        auto_added_header_def save_repl_def resolve_style_def map_image_bg_def or_default_def
        lower_def lower_char_def dict_get_def image_bg_table_def fmt_opt_def
        panel_injection_opaque_def squote_def)
  have n: "''plt'' \<notin> set exec_globals_names" by (simp add: exec_globals_names_def)
  show ?thesis
    unfolding execute_python_code_def p using n by (simp add: exec_globals_names_def)
qed

section \<open>The failure message of the external path\<close>

text \<open>
  Claim C3 (evaluation at a failing input).  A line that starts with \<open>Execution halted\<close>
  and contains \<open>error\<close> is accepted by the line filter, so it is selected as the message
  although a later line carries the error.
\<close>

theorem C3_banner_line_selected:
  "relevant_error ''Execution halted: error limit reached'' \<and>
   startswith ''Execution halted: error limit reached'' ''Execution halted'' \<and>
   select_error ''Execution halted: error limit reached\<newline>Error in plot(x) : object not found''
     = ''Execution halted: error limit reached'' \<and>
   r_error_msg ''Execution halted: error limit reached\<newline>Error in plot(x) : object not found''
     True = ''R execution error: Execution halted: error limit reached''"
  by code_simp

lemma cap_error_length:
  "length (cap_error e) \<le> 303 \<and>
   (300 < length e \<longrightarrow> cap_error e = take 300 e @ ''...'') \<and>
   (length e \<le> 300 \<longrightarrow> cap_error e = e)"
  by (simp add: cap_error_def)

lemma split_on_nonempty: "split_on sep s \<noteq> []"
  by (cases s) (auto split: list.splits)

lemma select_error_fallback:
  assumes "strip raw \<noteq> []"
    and "filter relevant_error (split_on LF (strip raw)) = []"
  shows "select_error raw = take 200 (strip (hd (split_on LF (strip raw))))"
proof -
  from assms(1) have "raw \<noteq> []" by (auto simp: strip_def)
  moreover obtain l ls where "split_on LF (strip raw) = l # ls"
    using split_on_nonempty [of LF "strip raw"] by (cases "split_on LF (strip raw)") auto
  ultimately show ?thesis using assms by (simp add: select_error_def Let_def)
qed

section \<open>Data injection\<close>























text \<open>An example of the data injection, evaluated.\<close>

lemma inject_csv_example:
  \<open>inject_csv (Some [[(''x'', Some ''1''), (''y'', Some ''a,b'')], [(''x'', Some ''2''), (''y'', None)]])
     ''# demo\<newline>import pandas as pd\<newline>df = pd.read_csv('data.csv', sep=",")\<newline>print(df)'' =
   Inr (''import io\<newline># demo\<newline>import pandas as pd\<newline>'' @
        ''csv_data_string = """x,y'' @ [CR, LF] @ ''1,"a,b"'' @ [CR, LF] @ ''2,'' @ [CR, LF] @ ''"""\<newline>'' @
        ''df = pd.read_csv(io.StringIO(csv_data_string))\<newline>print(df)'')\<close>
  by code_simp

end
